theory Spec2Isabelle
  imports Main "HOL-Library.AList"
begin

section \<open>Values, dictionaries and exceptions\<close>

text \<open>
  The driver \<^verbatim>\<open>salt/cloud/clouds/vultrpy.py\<close> works on decoded JSON and on the
  configuration of one VM. Scalars are the values of \<open>pyval\<close>; a flat dictionary
  (one catalog entry, one node, the \<^verbatim>\<open>vm_\<close> dict, the \<^verbatim>\<open>kwargs\<close> of the
  creation call) is an association list in insertion order, as a Python dict is.
  A table is what \<^verbatim>\<open>_query\<close> returns: a dictionary whose values are either
  entries (a decoded listing) or scalars (a flat answer, or the raw transport
  result). Byte strings are strings here (a \<open>char\<close> is a byte); floats and lists
  inside entries are not modelled.
\<close>

datatype pyval = PNone | PBool bool | PInt int | PStr string

type_synonym entry = "(string \<times> pyval) list"

datatype item = Scalar pyval | Obj entry

type_synonym table = "(string \<times> item) list"

datatype exn =
    KeyError
  | TypeError
  | NameError
  | AttributeError
  | SaltCloudConfigError
  | SaltCloudSystemExit
  | TransportError

text \<open>Python truthiness (\<^verbatim>\<open>if x\<close>, \<^verbatim>\<open>not x\<close>).\<close>

fun truthy :: "pyval \<Rightarrow> bool" where
  "truthy PNone = False"
| "truthy (PBool b) = b"
| "truthy (PInt i) = (i \<noteq> 0)"
| "truthy (PStr s) = (s \<noteq> [])"

text \<open>\<^verbatim>\<open>str(x)\<close>: decimal digits for an integer, the value itself for a string.\<close>

definition digit_char :: "nat \<Rightarrow> char" where
  "digit_char d = char_of (48 + d)"

fun str_nat :: "nat \<Rightarrow> string" where
  "str_nat n = (if n < 10 then [digit_char n] else str_nat (n div 10) @ [digit_char (n mod 10)])"

declare str_nat.simps [simp del]

definition str_int :: "int \<Rightarrow> string" where
  "str_int i = (if i < 0 then CHR ''-'' # str_nat (nat (- i)) else str_nat (nat i))"

fun py_str :: "pyval \<Rightarrow> string" where
  "py_str PNone = ''None''"
| "py_str (PBool b) = (if b then ''True'' else ''False'')"
| "py_str (PInt i) = str_int i"
| "py_str (PStr s) = s"

text \<open>
  \<^verbatim>\<open>int(x)\<close> in base ten, \<open>None\<close> where Python raises \<^verbatim>\<open>ValueError\<close> or
  \<^verbatim>\<open>TypeError\<close>: blanks around the numeral are stripped, one sign is allowed, and
  single underscores may separate digits.
\<close>

definition is_space :: "char \<Rightarrow> bool" where
  "is_space c = (of_char c \<in> {9, 10, 11, 12, 13, 28, 29, 30, 31, 32 :: nat})"

definition strip :: "string \<Rightarrow> string" where
  "strip s = rev (dropWhile is_space (rev (dropWhile is_space s)))"

definition digit_of :: "char \<Rightarrow> nat option" where
  "digit_of c = (let n = (of_char c :: nat) in if 48 \<le> n \<and> n \<le> 57 then Some (n - 48) else None)"

fun parse_digits :: "nat \<Rightarrow> bool \<Rightarrow> string \<Rightarrow> nat option" where
  "parse_digits acc after_digit [] = (if after_digit then Some acc else None)"
| "parse_digits acc after_digit (c # cs) =
     (if c = CHR ''_'' then (if after_digit then parse_digits acc False cs else None)
      else case digit_of c of
             None \<Rightarrow> None
           | Some d \<Rightarrow> parse_digits (10 * acc + d) True cs)"

definition int_of_string :: "string \<Rightarrow> int option" where
  "int_of_string s =
     (case strip s of
        [] \<Rightarrow> None
      | c # cs \<Rightarrow>
          if c = CHR ''-'' then map_option (\<lambda>n. - int n) (parse_digits 0 False cs)
          else if c = CHR ''+'' then map_option int (parse_digits 0 False cs)
          else map_option int (parse_digits 0 False (c # cs)))"

fun py_int :: "item \<Rightarrow> int option" where
  "py_int (Scalar (PInt i)) = Some i"
| "py_int (Scalar (PBool b)) = Some (if b then 1 else 0)"
| "py_int (Scalar (PStr s)) = int_of_string s"
| "py_int (Scalar PNone) = None"
| "py_int (Obj x) = None"

text \<open>\<^verbatim>\<open>s.split(",")\<close>.\<close>

fun split_comma :: "string \<Rightarrow> string list" where
  "split_comma [] = [[]]"
| "split_comma (c # cs) =
     (if c = CHR '','' then [] # split_comma cs
      else case split_comma cs of
             [] \<Rightarrow> [[c]]
           | w # ws \<Rightarrow> (c # w) # ws)"

text \<open>
  Dictionary keys compare with Python's \<^verbatim>\<open>==\<close>, under which \<^verbatim>\<open>True == 1\<close> and
  \<^verbatim>\<open>False == 0\<close>: a key is normalised before it is stored or looked up.
\<close>

fun py_key :: "pyval \<Rightarrow> pyval" where
  "py_key (PBool b) = PInt (if b then 1 else 0)"
| "py_key v = v"

type_synonym catalog_index = "(pyval \<times> entry) list"

definition index_set :: "pyval \<Rightarrow> entry \<Rightarrow> catalog_index \<Rightarrow> catalog_index" where
  "index_set k e d = AList.update (py_key k) e d"

definition index_get :: "catalog_index \<Rightarrow> pyval \<Rightarrow> entry option" where
  "index_get d k = map_of d (py_key k)"

text \<open>\<^verbatim>\<open>k in d\<close> and \<^verbatim>\<open>d.update(other)\<close> on dictionaries with string keys.\<close>

definition has_key :: "string \<Rightarrow> (string \<times> 'v) list \<Rightarrow> bool" where
  "has_key k d = (map_of d k \<noteq> None)"

definition dict_update :: "entry \<Rightarrow> entry \<Rightarrow> entry" where
  "dict_update d other = fold (\<lambda>(k, v). AList.update k v) other d"

section \<open>The world: effects, transport results and the injected collaborators\<close>

text \<open>
  The closures \<^verbatim>\<open>wait_for_hostname\<close>, \<^verbatim>\<open>wait_for_default_password\<close>,
  \<^verbatim>\<open>wait_for_status\<close> and \<^verbatim>\<open>wait_for_server_state\<close> that \<^verbatim>\<open>create\<close> hands to
  \<^verbatim>\<open>__utils__["cloud.wait_for_fun"]\<close> are named by a datatype.
\<close>

datatype probe =
    Wait_for_hostname
  | Wait_for_default_password
  | Wait_for_status
  | Wait_for_server_state

text \<open>
  The result dictionary of \<^verbatim>\<open>http.query\<close>: the decoded JSON under the key
  \<^verbatim>\<open>"dict"\<close> when there is one, and scalar fields such as \<^verbatim>\<open>"body"\<close>,
  \<^verbatim>\<open>"text"\<close>, \<^verbatim>\<open>"status"\<close> and \<^verbatim>\<open>"error"\<close>.
\<close>

record http_result =
  decoded :: "table option"
  raw :: entry

text \<open>
  Everything the module does to the outside is recorded, in order, in a trace.
  \<open>Http_query path method data decode answer\<close> is one call of
  \<^verbatim>\<open>__utils__["http.query"]\<close> made by \<^verbatim>\<open>_query\<close>, with what it answered; \<open>data\<close>
  is the mapping that \<^verbatim>\<open>urllib.parse.urlencode\<close> is applied to.
  \<open>Fire_event description tag\<close> is a call of \<^verbatim>\<open>__utils__["cloud.fire_event"]\<close>,
  \<open>Wait_for_fun probe timeout\<close> a call of \<^verbatim>\<open>__utils__["cloud.wait_for_fun"]\<close>,
  \<open>Cache_node\<close> and \<open>Bootstrap\<close> calls of \<^verbatim>\<open>__utils__["cloud.cache_node"]\<close> and
  \<^verbatim>\<open>__utils__["cloud.bootstrap"]\<close>, \<open>Sleep\<close> a call of \<^verbatim>\<open>time.sleep\<close>.
  Log lines are not recorded.
\<close>

datatype effect =
    Http_query string string "entry option" bool "exn + http_result"
  | Fire_event string string
  | Sleep nat
  | Wait_for_fun probe pyval
  | Cache_node entry
  | Bootstrap entry

text \<open>
  The collaborators are not defined in the module: the loader injects
  \<^verbatim>\<open>__utils__\<close> and \<^verbatim>\<open>__opts__\<close>, and \<^verbatim>\<open>config\<close>, \<^verbatim>\<open>validators\<close>, \<^verbatim>\<open>os.path\<close>
  and \<^verbatim>\<open>base64\<close> are imported. They are parameters here. The first argument of
  \<open>http_query\<close>, \<open>wait_for_fun\<close> and \<open>bootstrap\<close> is the number of effects that
  happened before the call, so that the answer may change over time.
  \<open>config_value name\<close> is what \<^verbatim>\<open>config.get_cloud_config_value\<close> finds for this
  VM (\<open>None\<close>: nothing configured, the call's default is used).
  \<open>validators_url\<close> is \<open>None\<close> when the \<^verbatim>\<open>validators\<close> package is missing.
  \<open>read_file\<close> (open and read) and \<open>userdata_template\<close> give \<open>None\<close> when
  they raise.
\<close>

record env =
  http_query :: "nat \<Rightarrow> string \<Rightarrow> string \<Rightarrow> entry option \<Rightarrow> bool \<Rightarrow> exn + http_result"
  config_value :: "string \<Rightarrow> pyval option"
  validators_url :: "(string \<Rightarrow> bool) option"
  isfile :: "pyval \<Rightarrow> bool"
  read_file :: "pyval \<Rightarrow> string option"
  userdata_template :: "string \<Rightarrow> pyval option"
  b64encode :: "string \<Rightarrow> string"
  wait_for_fun :: "nat \<Rightarrow> probe \<Rightarrow> pyval \<Rightarrow> pyval"
  bootstrap :: "nat \<Rightarrow> entry \<Rightarrow> exn + entry"

text \<open>
  The module's mutable state: the global \<^verbatim>\<open>DETAILS\<close> dictionary and the trace.
\<close>

record state =
  DETAILS :: "(string \<times> catalog_index) list"
  trace :: "effect list"

definition emit :: "effect \<Rightarrow> state \<Rightarrow> state" where
  "emit e s = s\<lparr>trace := trace s @ [e]\<rparr>"

definition get_cloud_config_value :: "env \<Rightarrow> string \<Rightarrow> pyval \<Rightarrow> pyval" where
  "get_cloud_config_value E name dflt =
     (case config_value E name of None \<Rightarrow> dflt | Some v \<Rightarrow> v)"

text \<open>
  Control flow inside a function body: a step raises, returns from the
  function, or goes on with a value. A call that has finished either raised or
  gave a value.
\<close>

datatype result = Val pyval | Dict entry | Table table

datatype 'a flow = Raise exn | Return result | Next 'a

definition then_do :: "'a flow \<times> state \<Rightarrow> ('a \<Rightarrow> state \<Rightarrow> 'b flow \<times> state) \<Rightarrow> 'b flow \<times> state" where
  "then_do m f =
     (case m of
        (Raise e, s) \<Rightarrow> (Raise e, s)
      | (Return r, s) \<Rightarrow> (Return r, s)
      | (Next x, s) \<Rightarrow> f x s)"

definition step :: "(exn + 'a) \<times> state \<Rightarrow> 'a flow \<times> state" where
  "step m = (case m of (Inl e, s) \<Rightarrow> (Raise e, s) | (Inr x, s) \<Rightarrow> (Next x, s))"

definition returned :: "unit flow \<times> state \<Rightarrow> (exn + result) \<times> state" where
  "returned m =
     (case m of
        (Raise e, s) \<Rightarrow> (Inl e, s)
      | (Return r, s) \<Rightarrow> (Inr r, s)
      | (Next u, s) \<Rightarrow> (Inr (Val PNone), s))"

definition getitem :: "entry \<Rightarrow> string \<Rightarrow> state \<Rightarrow> pyval flow \<times> state" where
  "getitem d k s = (case map_of d k of None \<Rightarrow> (Raise KeyError, s) | Some v \<Rightarrow> (Next v, s))"

section \<open>The query gateway\<close>

text \<open>
  \<^verbatim>\<open>_query\<close> issues one \<^verbatim>\<open>http.query\<close> call and returns \<^verbatim>\<open>result["dict"]\<close> when
  the key is there, the whole result otherwise.
\<close>

definition result_table :: "http_result \<Rightarrow> table" where
  "result_table r =
     (case decoded r of
        Some t \<Rightarrow> t
      | None \<Rightarrow> map (\<lambda>(k, v). (k, Scalar v)) (raw r))"

definition query :: "env \<Rightarrow> string \<Rightarrow> string \<Rightarrow> entry option \<Rightarrow> bool \<Rightarrow> state \<Rightarrow> (exn + table) \<times> state" where
  "query E path method data decode s =
     (let answer = http_query E (length (trace s)) path method data decode;
          s' = emit (Http_query path method data decode answer) s
      in case answer of
           Inl e \<Rightarrow> (Inl e, s')
         | Inr r \<Rightarrow> (Inr (result_table r), s'))"

definition avail_locations :: "env \<Rightarrow> state \<Rightarrow> (exn + table) \<times> state" where
  "avail_locations E s = query E ''regions/list'' ''GET'' None True s"

definition avail_scripts :: "env \<Rightarrow> state \<Rightarrow> (exn + table) \<times> state" where
  "avail_scripts E s = query E ''startupscript/list'' ''GET'' None True s"

definition avail_acct_isos :: "env \<Rightarrow> state \<Rightarrow> (exn + table) \<times> state" where
  "avail_acct_isos E s = query E ''iso/list'' ''GET'' None True s"

definition avail_public_isos :: "env \<Rightarrow> state \<Rightarrow> (exn + table) \<times> state" where
  "avail_public_isos E s = query E ''iso/list_public'' ''GET'' None True s"

definition avail_firewall_groups :: "env \<Rightarrow> state \<Rightarrow> (exn + table) \<times> state" where
  "avail_firewall_groups E s = query E ''firewall/group_list'' ''GET'' None True s"

definition avail_keys :: "env \<Rightarrow> state \<Rightarrow> (exn + table) \<times> state" where
  "avail_keys E s = query E ''sshkey/list'' ''GET'' None True s"

definition avail_sizes :: "env \<Rightarrow> state \<Rightarrow> (exn + table) \<times> state" where
  "avail_sizes E s = query E ''plans/list'' ''GET'' None True s"

definition avail_images :: "env \<Rightarrow> state \<Rightarrow> (exn + table) \<times> state" where
  "avail_images E s = query E ''os/list'' ''GET'' None True s"

section \<open>The catalog cache\<close>

text \<open>
  One loop of \<^verbatim>\<open>_cache_provider_details\<close>:
  \<^verbatim>\<open>for key, x in xs.items(): D[x["name"]] = x; D[key] = x\<close>.
  Subscripting a scalar raises \<open>TypeError\<close>, a missing \<^verbatim>\<open>"name"\<close> raises
  \<open>KeyError\<close>; what was stored before the exception stays in \<^verbatim>\<open>DETAILS\<close>.
\<close>

fun index_items :: "table \<Rightarrow> catalog_index \<Rightarrow> (exn option \<times> catalog_index)" where
  "index_items [] d = (None, d)"
| "index_items ((key, Scalar v) # xs) d = (Some TypeError, d)"
| "index_items ((key, Obj x) # xs) d =
     (case map_of x ''name'' of
        None \<Rightarrow> (Some KeyError, d)
      | Some n \<Rightarrow> index_items xs (index_set (PStr key) x (index_set n x d)))"

definition set_category :: "string \<Rightarrow> catalog_index \<Rightarrow> state \<Rightarrow> state" where
  "set_category c d s = s\<lparr>DETAILS := AList.update c d (DETAILS s)\<rparr>"

definition fill_category :: "string \<Rightarrow> table \<Rightarrow> state \<Rightarrow> (exn + unit) \<times> state" where
  "fill_category c t s =
     (case map_of (DETAILS s) c of
        None \<Rightarrow> (Inl KeyError, s)
      | Some d \<Rightarrow>
          (case index_items t d of
             (Some e, d') \<Rightarrow> (Inl e, set_category c d' s)
           | (None, d') \<Rightarrow> (Inr (), set_category c d' s)))"

text \<open>
  \<^verbatim>\<open>_cache_provider_details\<close>: the three categories are reset, the listings are
  fetched (locations, images, sizes), then indexed (locations, images, sizes).
\<close>

definition cache_provider_details :: "env \<Rightarrow> state \<Rightarrow> (exn + unit) \<times> state" where
  "cache_provider_details E s0 =
     (let s1 = set_category ''avail_images'' []
                 (set_category ''avail_sizes'' []
                   (set_category ''avail_locations'' [] s0)) in
      case avail_locations E s1 of
        (Inl e, s2) \<Rightarrow> (Inl e, s2)
      | (Inr locations, s2) \<Rightarrow>
      (case avail_images E s2 of
        (Inl e, s3) \<Rightarrow> (Inl e, s3)
      | (Inr images, s3) \<Rightarrow>
      (case avail_sizes E s3 of
        (Inl e, s4) \<Rightarrow> (Inl e, s4)
      | (Inr sizes, s4) \<Rightarrow>
      (case fill_category ''avail_locations'' locations s4 of
        (Inl e, s5) \<Rightarrow> (Inl e, s5)
      | (Inr u, s5) \<Rightarrow>
      (case fill_category ''avail_images'' images s5 of
        (Inl e, s6) \<Rightarrow> (Inl e, s6)
      | (Inr u, s6) \<Rightarrow> fill_category ''avail_sizes'' sizes s6)))))"

text \<open>
  The \<^verbatim>\<open>try\<close> block of \<^verbatim>\<open>_lookup_vultrid\<close>:
  \<^verbatim>\<open>DETAILS[availkey][which_key][keyname]\<close>, and \<^verbatim>\<open>False\<close> on \<^verbatim>\<open>KeyError\<close>.
\<close>

definition cached_id :: "(string \<times> catalog_index) list \<Rightarrow> string \<Rightarrow> string \<Rightarrow> string \<Rightarrow> pyval" where
  "cached_id D availkey which_key keyname =
     (case map_of D availkey of
        None \<Rightarrow> PBool False
      | Some d \<Rightarrow>
          (case index_get d (PStr which_key) of
             None \<Rightarrow> PBool False
           | Some x \<Rightarrow>
               (case map_of x keyname of
                  None \<Rightarrow> PBool False
                | Some v \<Rightarrow> v)))"

text \<open>
  \<^verbatim>\<open>_lookup_vultrid(which_key, availkey, keyname)\<close>: the fetch runs only when
  \<^verbatim>\<open>DETAILS == {}\<close>, and its exceptions are not caught.
\<close>

definition lookup_vultrid :: "env \<Rightarrow> pyval \<Rightarrow> string \<Rightarrow> string \<Rightarrow> state \<Rightarrow> (exn + pyval) \<times> state" where
  "lookup_vultrid E which_key availkey keyname s0 =
     (case (if DETAILS s0 = [] then cache_provider_details E s0 else (Inr (), s0)) of
        (Inl e, s) \<Rightarrow> (Inl e, s)
      | (Inr u, s) \<Rightarrow> (Inr (cached_id (DETAILS s) availkey (py_str which_key) keyname), s))"

section \<open>Instances\<close>

text \<open>
  The body of the loop of \<^verbatim>\<open>list_nodes_full\<close> for one node: a copy of the node
  with six more keys. The right-hand sides read the provider's node, so a
  missing key raises \<open>KeyError\<close>.
\<close>

definition node_full :: "string \<Rightarrow> entry \<Rightarrow> exn + entry" where
  "node_full node x =
     (case (map_of x ''os'', map_of x ''VPSPLANID'', map_of x ''status'',
            map_of x ''internal_ip'', map_of x ''main_ip'') of
        (Some os, Some plan, Some st, Some iip, Some mip) \<Rightarrow>
          Inr (AList.update ''public_ips'' mip
              (AList.update ''private_ips'' iip
              (AList.update ''state'' st
              (AList.update ''size'' plan
              (AList.update ''image'' os
              (AList.update ''id'' (PStr node) x))))))
      | _ \<Rightarrow> Inl KeyError)"

fun nodes_loop :: "table \<Rightarrow> catalog_index \<Rightarrow> exn + catalog_index" where
  "nodes_loop [] ret = Inr ret"
| "nodes_loop ((node, Scalar v) # xs) ret = Inl TypeError"
| "nodes_loop ((node, Obj x) # xs) ret =
     (case map_of x ''label'' of
        None \<Rightarrow> Inl KeyError
      | Some name \<Rightarrow>
          (case node_full node x of
             Inl e \<Rightarrow> Inl e
           | Inr y \<Rightarrow> nodes_loop xs (index_set name y ret)))"

definition list_nodes_full :: "env \<Rightarrow> state \<Rightarrow> (exn + catalog_index) \<times> state" where
  "list_nodes_full E s =
     (case query E ''server/list'' ''GET'' None True s of
        (Inl e, s') \<Rightarrow> (Inl e, s')
      | (Inr nodes, s') \<Rightarrow> (nodes_loop nodes [], s'))"

definition show_instance :: "env \<Rightarrow> pyval \<Rightarrow> string \<Rightarrow> state \<Rightarrow> (exn + entry) \<times> state" where
  "show_instance E name call s =
     (if call \<noteq> ''action'' then (Inl SaltCloudSystemExit, s)
      else case list_nodes_full E s of
        (Inl e, s') \<Rightarrow> (Inl e, s')
      | (Inr nodes, s') \<Rightarrow>
          (case index_get nodes name of
             None \<Rightarrow> (Inr [], s')
           | Some x \<Rightarrow> (Inr x, emit (Cache_node x) s')))"

text \<open>
  \<^verbatim>\<open>destroy(name)\<close> returns \<^verbatim>\<open>True\<close> when both \<^verbatim>\<open>result.get("body")\<close> and
  \<^verbatim>\<open>result.get("text")\<close> are the empty string, the result otherwise.
\<close>

definition destroy :: "env \<Rightarrow> pyval \<Rightarrow> state \<Rightarrow> (exn + result) \<times> state" where
  "destroy E name s0 = returned (
     then_do (step (show_instance E name ''action'' s0)) (\<lambda>node s.
     then_do (getitem node ''SUBID'' s) (\<lambda>subid s.
     then_do (step (query E ''server/destroy'' ''POST'' (Some [(''SUBID'', subid)]) False s)) (\<lambda>res s.
       if map_of res ''body'' = Some (Scalar (PStr [])) \<and> map_of res ''text'' = Some (Scalar (PStr []))
       then (Return (Val (PBool True)), s)
       else (Return (Table res), s)))))"

section \<open>The readiness probes\<close>

text \<open>
  \<^verbatim>\<open>str(data.get(key, default))\<close> on the dictionary that \<^verbatim>\<open>show_instance\<close> returns,
  and \<^verbatim>\<open>s.startswith("0")\<close>.
\<close>

definition str_get :: "entry \<Rightarrow> string \<Rightarrow> string \<Rightarrow> string" where
  "str_get d k dflt = (case map_of d k of None \<Rightarrow> dflt | Some v \<Rightarrow> py_str v)"

definition startswith0 :: "string \<Rightarrow> bool" where
  "startswith0 s = (case s of [] \<Rightarrow> False | c # cs \<Rightarrow> c = CHR ''0'')"

definition wait_for_hostname :: "env \<Rightarrow> entry \<Rightarrow> state \<Rightarrow> (exn + result) \<times> state" where
  "wait_for_hostname E vm s0 = returned (
     then_do (getitem vm ''name'' s0) (\<lambda>name s.
     then_do (step (show_instance E name ''action'' s)) (\<lambda>data s.
       if startswith0 (str_get data ''main_ip'' ''0'')
       then (Return (Val (PBool False)), emit (Sleep 3) s)
       else then_do (getitem data ''main_ip'' s) (\<lambda>v s. (Return (Val v), s)))))"

definition wait_for_default_password :: "env \<Rightarrow> entry \<Rightarrow> state \<Rightarrow> (exn + result) \<times> state" where
  "wait_for_default_password E vm s0 = returned (
     then_do (getitem vm ''name'' s0) (\<lambda>name s.
     then_do (step (show_instance E name ''action'' s)) (\<lambda>data s.
       if str_get data ''default_password'' [] = []
          \<or> str_get data ''default_password'' [] = ''not supported''
       then (Return (Val (PBool False)), emit (Sleep 1) s)
       else then_do (getitem data ''default_password'' s) (\<lambda>v s. (Return (Val v), s)))))"

definition wait_for_status :: "env \<Rightarrow> entry \<Rightarrow> state \<Rightarrow> (exn + result) \<times> state" where
  "wait_for_status E vm s0 = returned (
     then_do (getitem vm ''name'' s0) (\<lambda>name s.
     then_do (step (show_instance E name ''action'' s)) (\<lambda>data s.
       if str_get data ''status'' [] \<noteq> ''active''
       then (Return (Val (PBool False)), emit (Sleep 1) s)
       else then_do (getitem data ''default_password'' s) (\<lambda>v s. (Return (Val v), s)))))"

definition wait_for_server_state :: "env \<Rightarrow> entry \<Rightarrow> state \<Rightarrow> (exn + result) \<times> state" where
  "wait_for_server_state E vm s0 = returned (
     then_do (getitem vm ''name'' s0) (\<lambda>name s.
     then_do (step (show_instance E name ''action'' s)) (\<lambda>data s.
       if str_get data ''server_state'' [] \<noteq> ''ok''
       then (Return (Val (PBool False)), emit (Sleep 1) s)
       else then_do (getitem data ''default_password'' s) (\<lambda>v s. (Return (Val v), s)))))"

fun run_probe :: "probe \<Rightarrow> env \<Rightarrow> entry \<Rightarrow> state \<Rightarrow> (exn + result) \<times> state" where
  "run_probe Wait_for_hostname = wait_for_hostname"
| "run_probe Wait_for_default_password = wait_for_default_password"
| "run_probe Wait_for_status = wait_for_status"
| "run_probe Wait_for_server_state = wait_for_server_state"

section \<open>Creation\<close>

text \<open>
  \<^verbatim>\<open>create(vm_)\<close>, block by block in the order of the source. The configuration
  values are read with \<^verbatim>\<open>config.get_cloud_config_value\<close> and the default the
  source passes.
\<close>

definition ensure_driver :: "entry \<Rightarrow> state \<Rightarrow> entry flow \<times> state" where
  "ensure_driver vm s =
     (if has_key ''driver'' vm then (Next vm, s)
      else then_do (getitem vm ''provider'' s) (\<lambda>p s. (Next (AList.update ''driver'' p vm), s)))"

definition check_startup_script :: "env \<Rightarrow> state \<Rightarrow> unit flow \<times> state" where
  "check_startup_script E s =
     (let startup_script = get_cloud_config_value E ''startup_script_id'' PNone in
      if truthy startup_script
      then then_do (step (avail_scripts E s)) (\<lambda>scripts s.
             if \<not> has_key (py_str startup_script) scripts
             then (Return (Val (PBool False)), s)
             else (Next (), s))
      else (Next (), s))"

definition check_isoid :: "env \<Rightarrow> state \<Rightarrow> unit flow \<times> state" where
  "check_isoid E s =
     (let isoid = get_cloud_config_value E ''isoid'' PNone in
      if truthy isoid
      then then_do (step (avail_acct_isos E s)) (\<lambda>acct s.
             if has_key (py_str isoid) acct then (Next (), s)
             else then_do (step (avail_public_isos E s)) (\<lambda>pub s.
                    if \<not> has_key (py_str isoid) pub
                    then (Return (Val (PBool False)), s)
                    else (Next (), s)))
      else (Next (), s))"

definition check_ipxe_chain_url :: "env \<Rightarrow> state \<Rightarrow> unit flow \<times> state" where
  "check_ipxe_chain_url E s =
     (let ipxe_chain_url = get_cloud_config_value E ''ipxe_chain_url'' (PBool False) in
      if truthy ipxe_chain_url
      then (case validators_url E of
              None \<Rightarrow> (Raise NameError, s)
            | Some url \<Rightarrow>
                if \<not> url (py_str ipxe_chain_url)
                then (Return (Val (PBool False)), s)
                else (Next (), s))
      else (Next (), s))"

definition check_firewall_group :: "env \<Rightarrow> state \<Rightarrow> unit flow \<times> state" where
  "check_firewall_group E s =
     (let firewall_group_id = get_cloud_config_value E ''firewall_group_id'' PNone in
      if truthy firewall_group_id
      then then_do (step (avail_firewall_groups E s)) (\<lambda>groups s.
             if \<not> has_key (py_str firewall_group_id) groups
             then (Return (Val (PBool False)), s)
             else (Next (), s))
      else (Next (), s))"

text \<open>
  \<^verbatim>\<open>for key in key_list: if key and str(key) not in available_keys: return False\<close>.
\<close>

fun keys_loop :: "string list \<Rightarrow> table \<Rightarrow> state \<Rightarrow> unit flow \<times> state" where
  "keys_loop [] available_keys s = (Next (), s)"
| "keys_loop (key # key_list) available_keys s =
     (if key \<noteq> [] \<and> \<not> has_key key available_keys
      then (Return (Val (PBool False)), s)
      else keys_loop key_list available_keys s)"

definition check_ssh_keys :: "env \<Rightarrow> state \<Rightarrow> unit flow \<times> state" where
  "check_ssh_keys E s =
     (case get_cloud_config_value E ''ssh_key_names'' PNone of
        PNone \<Rightarrow> (Next (), s)
      | PStr ssh_key_ids \<Rightarrow>
          then_do (step (avail_keys E s)) (\<lambda>available_keys s.
            keys_loop (split_comma ssh_key_ids) available_keys s)
      | PBool b \<Rightarrow> (Raise AttributeError, s)
      | PInt i \<Rightarrow> (Raise AttributeError, s))"

definition check_private_networking :: "env \<Rightarrow> state \<Rightarrow> string flow \<times> state" where
  "check_private_networking E s =
     (case get_cloud_config_value E ''enable_private_network'' (PBool False) of
        PNone \<Rightarrow> (Next ''no'', s)
      | PBool b \<Rightarrow> (Next (if b then ''yes'' else ''no''), s)
      | PInt i \<Rightarrow> (Raise SaltCloudConfigError, s)
      | PStr x \<Rightarrow> (Raise SaltCloudConfigError, s))"

definition validate_references :: "env \<Rightarrow> state \<Rightarrow> string flow \<times> state" where
  "validate_references E s0 =
     then_do (check_startup_script E s0) (\<lambda>u s.
     then_do (check_isoid E s) (\<lambda>u s.
     then_do (check_ipxe_chain_url E s) (\<lambda>u s.
     then_do (check_firewall_group E s) (\<lambda>u s.
     then_do (check_ssh_keys E s) (\<lambda>u s.
       check_private_networking E s)))))"

definition fire_event :: "string \<Rightarrow> string \<Rightarrow> pyval \<Rightarrow> state \<Rightarrow> unit flow \<times> state" where
  "fire_event description stage name s =
     (Next (), emit (Fire_event description (''salt/cloud/'' @ py_str name @ ''/'' @ stage)) s)"

definition resolve_field :: "env \<Rightarrow> entry \<Rightarrow> string \<Rightarrow> string \<Rightarrow> string \<Rightarrow> state \<Rightarrow> pyval flow \<times> state" where
  "resolve_field E vm field availkey keyname s0 =
     then_do (getitem vm field s0) (\<lambda>which_key s.
     then_do (step (lookup_vultrid E which_key availkey keyname s)) (\<lambda>v s.
       if \<not> truthy v then (Return (Val (PBool False)), s) else (Next v, s)))"

definition resolve_ids :: "env \<Rightarrow> entry \<Rightarrow> state \<Rightarrow> (pyval \<times> pyval \<times> pyval) flow \<times> state" where
  "resolve_ids E vm s0 =
     then_do (resolve_field E vm ''image'' ''avail_images'' ''OSID'' s0) (\<lambda>osid s.
     then_do (resolve_field E vm ''size'' ''avail_sizes'' ''VPSPLANID'' s) (\<lambda>vpsplanid s.
     then_do (resolve_field E vm ''location'' ''avail_locations'' ''DCID'' s) (\<lambda>dcid s.
       (Next (osid, vpsplanid, dcid), s))))"

text \<open>
  The two \<^verbatim>\<open>userdata\<close> blocks. The first stores the rendered file under
  \<^verbatim>\<open>kwargs["userdata"]\<close> when \<^verbatim>\<open>userdata\<close> names a file; the second runs whenever
  \<^verbatim>\<open>userdata is not None\<close> and stores
  \<^verbatim>\<open>base64.b64encode(salt.utils.stringutils.to_bytes(userdata))\<close>, where
  \<^verbatim>\<open>to_bytes\<close> raises \<^verbatim>\<open>TypeError\<close> on a value that is no string. Both blocks
  catch and log every exception.
\<close>

definition userdata_from_file :: "env \<Rightarrow> pyval \<Rightarrow> entry \<Rightarrow> entry" where
  "userdata_from_file E userdata kwargs =
     (if userdata \<noteq> PNone \<and> isfile E userdata
      then (case read_file E userdata of
              None \<Rightarrow> kwargs
            | Some text \<Rightarrow>
                (case userdata_template E text of
                   None \<Rightarrow> kwargs
                 | Some rendered \<Rightarrow> AList.update ''userdata'' rendered kwargs))
      else kwargs)"

definition userdata_encoded :: "env \<Rightarrow> pyval \<Rightarrow> entry \<Rightarrow> entry" where
  "userdata_encoded E userdata kwargs =
     (case userdata of
        PNone \<Rightarrow> kwargs
      | PStr u \<Rightarrow> AList.update ''userdata'' (PStr (b64encode E u)) kwargs
      | PBool b \<Rightarrow> kwargs
      | PInt i \<Rightarrow> kwargs)"

definition set_if :: "pyval \<Rightarrow> string \<Rightarrow> entry \<Rightarrow> entry" where
  "set_if v k kwargs = (if truthy v then AList.update k v kwargs else kwargs)"

definition build_kwargs :: "env \<Rightarrow> pyval \<Rightarrow> pyval \<Rightarrow> pyval \<Rightarrow> pyval \<Rightarrow> string \<Rightarrow> entry" where
  "build_kwargs E name osid vpsplanid dcid enable_private_network =
     (let userdata = get_cloud_config_value E ''userdata'' PNone;
          kwargs = [(''label'', name),
                    (''OSID'', osid),
                    (''VPSPLANID'', vpsplanid),
                    (''DCID'', dcid),
                    (''hostname'', name),
                    (''enable_private_network'', PStr enable_private_network)];
          kwargs = set_if (get_cloud_config_value E ''startup_script_id'' PNone) ''SCRIPTID'' kwargs;
          kwargs = set_if (get_cloud_config_value E ''isoid'' PNone) ''ISOID'' kwargs;
          kwargs = set_if (get_cloud_config_value E ''ipxe_chain_url'' (PBool False)) ''ipxe_chain_url'' kwargs;
          kwargs = userdata_from_file E userdata kwargs;
          kwargs = userdata_encoded E userdata kwargs;
          kwargs = set_if (get_cloud_config_value E ''firewall_group_id'' PNone) ''FIREWALLGROUPID'' kwargs;
          kwargs = set_if (get_cloud_config_value E ''ssh_key_names'' PNone) ''SSHKEYID'' kwargs
      in kwargs)"

text \<open>
  The submission, the only call that changes anything at the provider. An
  exception of the transport or of \<^verbatim>\<open>int(data.get("status", "200"))\<close>, and a
  status of 300 or more, fire the failure event and return \<^verbatim>\<open>False\<close>.
\<close>

definition request_failed :: "pyval \<Rightarrow> state \<Rightarrow> table flow \<times> state" where
  "request_failed name s =
     (Return (Val (PBool False)),
      emit (Fire_event ''instance request failed'' (''salt/cloud/'' @ py_str name @ ''/requesting/failed'')) s)"

definition status_of :: "table \<Rightarrow> int option" where
  "status_of data = py_int (case map_of data ''status'' of None \<Rightarrow> Scalar (PStr ''200'') | Some v \<Rightarrow> v)"

definition submit :: "env \<Rightarrow> pyval \<Rightarrow> entry \<Rightarrow> state \<Rightarrow> table flow \<times> state" where
  "submit E name kwargs s =
     (case query E ''server/create'' ''POST'' (Some kwargs) True s of
        (Inl e, s') \<Rightarrow> request_failed name s'
      | (Inr data, s') \<Rightarrow>
          (case status_of data of
             None \<Rightarrow> request_failed name s'
           | Some status \<Rightarrow>
               if status \<ge> 300 then request_failed name s' else (Next data, s')))"

text \<open>
  The four calls of \<^verbatim>\<open>__utils__["cloud.wait_for_fun"]\<close>, each with the timeout
  \<^verbatim>\<open>get_cloud_config_value("wait_for_fun_timeout", vm_, __opts__, default=15 * 60)\<close>.
  The results of the last two are dropped.
\<close>

definition call_wait_for_fun :: "env \<Rightarrow> probe \<Rightarrow> state \<Rightarrow> pyval flow \<times> state" where
  "call_wait_for_fun E p s =
     (let timeout = get_cloud_config_value E ''wait_for_fun_timeout'' (PInt (15 * 60)) in
      (Next (wait_for_fun E (length (trace s)) p timeout), emit (Wait_for_fun p timeout) s))"

definition poll_readiness :: "env \<Rightarrow> entry \<Rightarrow> state \<Rightarrow> entry flow \<times> state" where
  "poll_readiness E vm0 s0 =
     (let ssh_username = get_cloud_config_value E ''ssh_username'' (PBool False);
          password = get_cloud_config_value E ''password'' (PBool False) in
      then_do (call_wait_for_fun E Wait_for_hostname s0) (\<lambda>ssh_host s.
      let vm = AList.update ''ssh_host'' ssh_host vm0;
          vm = set_if ssh_username ''ssh_username'' vm in
      then_do (if \<not> truthy password
               then call_wait_for_fun E Wait_for_default_password s
               else (Next password, s)) (\<lambda>pw s.
      let vm = AList.update ''password'' pw vm in
      then_do (call_wait_for_fun E Wait_for_status s) (\<lambda>u s.
      then_do (call_wait_for_fun E Wait_for_server_state s) (\<lambda>u s.
        (Next vm, s))))))"

definition call_bootstrap :: "env \<Rightarrow> entry \<Rightarrow> state \<Rightarrow> entry flow \<times> state" where
  "call_bootstrap E vm s =
     step (bootstrap E (length (trace s)) vm, emit (Bootstrap vm) s)"

definition create :: "env \<Rightarrow> entry \<Rightarrow> state \<Rightarrow> (exn + result) \<times> state" where
  "create E vm0 s0 = returned (
     then_do (ensure_driver vm0 s0) (\<lambda>vm s.
     then_do (validate_references E s) (\<lambda>enable_private_network s.
     then_do (getitem vm ''name'' s) (\<lambda>name s.
     then_do (fire_event ''starting create'' ''creating'' name s) (\<lambda>u s.
     then_do (resolve_ids E vm s) (\<lambda>(osid, vpsplanid, dcid) s.
     let kwargs = build_kwargs E name osid vpsplanid dcid enable_private_network in
     then_do (fire_event ''requesting instance'' ''requesting'' name s) (\<lambda>u s.
     then_do (submit E name kwargs s) (\<lambda>data s.
     then_do (poll_readiness E vm s) (\<lambda>vm s.
     then_do (call_bootstrap E vm s) (\<lambda>ret s.
     then_do (step (show_instance E name ''action'' s)) (\<lambda>instance s.
     then_do (fire_event ''created instance'' ''created'' name s) (\<lambda>u s.
       (Return (Dict (dict_update ret instance)), s)))))))))))))"

section \<open>An example provider\<close>

text \<open>
  The catalog of the unit tests (\<^verbatim>\<open>tests/pytests/unit/cloud/clouds/test_vultrpy.py\<close>,
  scalar fields only) and one node, answered by a transport that knows the
  paths of the API. \<open>base64\<close> is the encoding of RFC 4648 that
  \<^verbatim>\<open>base64.b64encode\<close> computes.
\<close>

definition fixture_locations :: table where
  "fixture_locations =
     [(''1'', Obj [(''DCID'', PStr ''1''), (''name'', PStr ''New Jersey''), (''country'', PStr ''US''),
                   (''regioncode'', PStr ''EWR'')]),
      (''7'', Obj [(''DCID'', PStr ''7''), (''name'', PStr ''Amsterdam''), (''country'', PStr ''NL''),
                   (''regioncode'', PStr ''AMS'')]),
      (''22'', Obj [(''DCID'', PStr ''22''), (''name'', PStr ''Toronto''), (''country'', PStr ''CA''),
                    (''regioncode'', PStr ''YTO'')])]"

definition fixture_sizes :: table where
  "fixture_sizes =
     [(''115'', Obj [(''VPSPLANID'', PStr ''115''), (''name'', PStr ''8192 MB RAM,110 GB SSD,10.00 TB BW''),
                     (''plan_type'', PStr ''DEDICATED'')]),
      (''201'', Obj [(''VPSPLANID'', PStr ''201''), (''name'', PStr ''1024 MB RAM,25 GB SSD,1.00 TB BW''),
                     (''plan_type'', PStr ''SSD'')]),
      (''203'', Obj [(''VPSPLANID'', PStr ''203''), (''name'', PStr ''4096 MB RAM,80 GB SSD,3.00 TB BW''),
                     (''plan_type'', PStr ''SSD'')])]"

definition fixture_images :: table where
  "fixture_images =
     [(''362'', Obj [(''OSID'', PInt 362), (''name'', PStr ''CentOS 8 x64''), (''family'', PStr ''centos''),
                     (''windows'', PBool False)]),
      (''240'', Obj [(''OSID'', PInt 240), (''name'', PStr ''Windows 2016 x64''), (''family'', PStr ''windows''),
                     (''windows'', PBool True)]),
      (''159'', Obj [(''OSID'', PInt 159), (''name'', PStr ''Custom''), (''family'', PStr ''iso''),
                     (''windows'', PBool False)])]"

definition fixture_scripts :: table where
  "fixture_scripts =
     [(''793055'', Obj [(''SCRIPTID'', PStr ''793055''), (''name'', PStr ''boot''), (''type'', PStr ''boot'')]),
      (''793056'', Obj [(''SCRIPTID'', PStr ''793056''), (''name'', PStr ''pxe''), (''type'', PStr ''pxe'')])]"

definition fixture_firewall_groups :: table where
  "fixture_firewall_groups =
     [(''2aac0c5f'', Obj [(''FIREWALLGROUPID'', PStr ''2aac0c5f''), (''description'', PStr ''group1'')]),
      (''ef8d7e3c'', Obj [(''FIREWALLGROUPID'', PStr ''ef8d7e3c''), (''description'', PStr ''group2'')])]"

definition fixture_nodes :: table where
  "fixture_nodes =
     [(''42164666'',
       Obj [(''SUBID'', PStr ''42164666''), (''os'', PStr ''CentOS 8 x64''),
            (''main_ip'', PStr ''192.0.2.143''), (''default_password'', PStr ''c0Jkwj(p;&?4sY5Y''),
            (''status'', PStr ''active''), (''server_state'', PStr ''ok''),
            (''VPSPLANID'', PStr ''201''), (''label'', PStr ''host1''), (''internal_ip'', PStr [])])]"

definition listing :: "table \<Rightarrow> exn + http_result" where
  "listing t = Inr \<lparr>decoded = Some t, raw = []\<rparr>"

definition fixture_http :: "nat \<Rightarrow> string \<Rightarrow> string \<Rightarrow> entry option \<Rightarrow> bool \<Rightarrow> exn + http_result" where
  "fixture_http n path method data decode =
     (if path = ''regions/list'' then listing fixture_locations
      else if path = ''plans/list'' then listing fixture_sizes
      else if path = ''os/list'' then listing fixture_images
      else if path = ''startupscript/list'' then listing fixture_scripts
      else if path = ''firewall/group_list'' then listing fixture_firewall_groups
      else if path = ''iso/list'' then listing []
      else if path = ''iso/list_public'' then listing []
      else if path = ''sshkey/list'' then listing []
      else if path = ''server/list'' then listing fixture_nodes
      else if path = ''server/create'' then listing [(''SUBID'', Scalar (PStr ''42164666''))]
      else if path = ''server/destroy'' then Inr \<lparr>decoded = None, raw = [(''body'', PStr []), (''text'', PStr [])]\<rparr>
      else Inl TransportError)"

definition b64_char :: "nat \<Rightarrow> char" where
  "b64_char n = ''ABCDEFGHIJKLMNOPQRSTUVWXYZabcdefghijklmnopqrstuvwxyz0123456789+/'' ! n"

fun base64 :: "string \<Rightarrow> string" where
  "base64 [] = []"
| "base64 [a] =
     (let n = of_char a * 65536 in
      [b64_char (n div 262144), b64_char (n div 4096 mod 64), CHR ''='', CHR ''=''])"
| "base64 [a, b] =
     (let n = of_char a * 65536 + of_char b * 256 in
      [b64_char (n div 262144), b64_char (n div 4096 mod 64), b64_char (n div 64 mod 64), CHR ''=''])"
| "base64 (a # b # c # rest) =
     (let n = of_char a * 65536 + of_char b * 256 + of_char c in
      [b64_char (n div 262144), b64_char (n div 4096 mod 64), b64_char (n div 64 mod 64), b64_char (n mod 64)]
      @ base64 rest)"

definition fixture_waits :: "nat \<Rightarrow> probe \<Rightarrow> pyval \<Rightarrow> pyval" where
  "fixture_waits n p timeout =
     (case p of
        Wait_for_hostname \<Rightarrow> PStr ''192.0.2.143''
      | Wait_for_default_password \<Rightarrow> PStr ''c0Jkwj(p;&?4sY5Y''
      | Wait_for_status \<Rightarrow> PStr ''c0Jkwj(p;&?4sY5Y''
      | Wait_for_server_state \<Rightarrow> PStr ''c0Jkwj(p;&?4sY5Y'')"

definition fixture_env :: env where
  "fixture_env =
     \<lparr>http_query = fixture_http,
      config_value = (\<lambda>name. None),
      validators_url = Some (\<lambda>url. take 8 url = ''https://''),
      isfile = (\<lambda>path. path = PStr ''/srv/scripts/userdata.tmpl''),
      read_file = (\<lambda>path. if path = PStr ''/srv/scripts/userdata.tmpl'' then Some ''#cloud-config'' else None),
      userdata_template = (\<lambda>text. Some (PStr text)),
      b64encode = base64,
      wait_for_fun = fixture_waits,
      bootstrap = (\<lambda>n vm. Inr [(''deployed'', PBool True)])\<rparr>"

definition fixture_vm :: entry where
  "fixture_vm =
     [(''name'', PStr ''host1''),
      (''provider'', PStr ''my-vultr-config''),
      (''image'', PStr ''CentOS 8 x64''),
      (''size'', PStr ''1024 MB RAM,25 GB SSD,1.00 TB BW''),
      (''location'', PStr ''Amsterdam'')]"

definition fresh :: state where
  "fresh = \<lparr>DETAILS = [], trace = []\<rparr>"

section \<open>Reading a trace\<close>

text \<open>
  The properties below are stated on what a call added to the trace.
\<close>

definition new_effects :: "state \<Rightarrow> state \<Rightarrow> effect list" where
  "new_effects s s' = drop (length (trace s)) (trace s')"

fun path_of :: "effect \<Rightarrow> string option" where
  "path_of (Http_query p m d dec a) = Some p"
| "path_of e = None"

text \<open>The submission is the query to \<^verbatim>\<open>server/create\<close>; its payload is \<^verbatim>\<open>kwargs\<close>.\<close>

definition is_submission :: "effect \<Rightarrow> bool" where
  "is_submission e = (path_of e = Some ''server/create'')"

fun payload_of :: "effect \<Rightarrow> entry option" where
  "payload_of (Http_query p m d dec a) = (if p = ''server/create'' then d else None)"
| "payload_of e = None"

definition submissions :: "effect list \<Rightarrow> entry list" where
  "submissions tr = List.map_filter payload_of tr"

text \<open>
  The submission succeeded: the transport answered, and the status in the
  answer (200 when there is none) is below 300.
\<close>

fun accepted :: "effect \<Rightarrow> bool" where
  "accepted (Http_query p m d dec (Inr r)) =
     (p = ''server/create'' \<and> (case status_of (result_table r) of None \<Rightarrow> False | Some st \<Rightarrow> st < 300))"
| "accepted e = False"

text \<open>The listings that validate the optional references, and the catalog listings.\<close>

definition is_validation_query :: "effect \<Rightarrow> bool" where
  "is_validation_query e =
     (case path_of e of
        None \<Rightarrow> False
      | Some p \<Rightarrow> p \<in> set [''startupscript/list'', ''iso/list'', ''iso/list_public'',
                           ''firewall/group_list'', ''sshkey/list''])"

definition is_catalog_query :: "effect \<Rightarrow> bool" where
  "is_catalog_query e =
     (case path_of e of
        None \<Rightarrow> False
      | Some p \<Rightarrow> p \<in> set [''regions/list'', ''os/list'', ''plans/list''])"

fun is_starting_event :: "effect \<Rightarrow> bool" where
  "is_starting_event (Fire_event description tag) = (description = ''starting create'')"
| "is_starting_event e = False"

fun wait_of :: "effect \<Rightarrow> (probe \<times> pyval) option" where
  "wait_of (Wait_for_fun p timeout) = Some (p, timeout)"
| "wait_of e = None"

definition wait_calls :: "effect list \<Rightarrow> (probe \<times> pyval) list" where
  "wait_calls tr = List.map_filter wait_of tr"

text \<open>\<open>precedes P Q tr\<close>: in \<open>tr\<close>, no effect with \<open>P\<close> comes after an effect with \<open>Q\<close>.\<close>

fun precedes :: "(effect \<Rightarrow> bool) \<Rightarrow> (effect \<Rightarrow> bool) \<Rightarrow> effect list \<Rightarrow> bool" where
  "precedes P Q [] = True"
| "precedes P Q (e # es) = ((Q e \<longrightarrow> \<not> list_ex P es) \<and> precedes P Q es)"

text \<open>
  The order of steps as the specification lists them: catalog resolution, then
  validation of the optional references, then the starting event.
\<close>

definition specified_order :: "effect list \<Rightarrow> bool" where
  "specified_order tr =
     (precedes is_catalog_query is_validation_query tr
      \<and> precedes is_catalog_query is_starting_event tr
      \<and> precedes is_validation_query is_starting_event tr)"

text \<open>
  A key was listed: some listing of \<open>path\<close> in the trace was answered with a
  dictionary that has the key.
\<close>

fun listing_has :: "string \<Rightarrow> string \<Rightarrow> effect \<Rightarrow> bool" where
  "listing_has path k (Http_query p m d dec (Inr r)) = (p = path \<and> has_key k (result_table r))"
| "listing_has path k e = False"

definition listed :: "string \<Rightarrow> string \<Rightarrow> effect list \<Rightarrow> bool" where
  "listed path k tr = list_ex (listing_has path k) tr"

text \<open>
  An optional reference that is present fails validation: a startup script,
  a firewall group or an SSH key that no listing fetched by the call has, an
  ISO that neither ISO listing has, an iPXE chain URL that
  \<^verbatim>\<open>validators.url\<close> does not accept.
\<close>

definition reference_fails :: "env \<Rightarrow> effect list \<Rightarrow> bool" where
  "reference_fails E tr =
     (let startup_script = get_cloud_config_value E ''startup_script_id'' PNone;
          isoid = get_cloud_config_value E ''isoid'' PNone;
          ipxe_chain_url = get_cloud_config_value E ''ipxe_chain_url'' (PBool False);
          firewall_group_id = get_cloud_config_value E ''firewall_group_id'' PNone;
          ssh_key_ids = get_cloud_config_value E ''ssh_key_names'' PNone
      in (truthy startup_script \<and> \<not> listed ''startupscript/list'' (py_str startup_script) tr)
       \<or> (truthy isoid \<and> \<not> listed ''iso/list'' (py_str isoid) tr
                        \<and> \<not> listed ''iso/list_public'' (py_str isoid) tr)
       \<or> (truthy ipxe_chain_url \<and>
            (case validators_url E of None \<Rightarrow> True | Some url \<Rightarrow> \<not> url (py_str ipxe_chain_url)))
       \<or> (truthy firewall_group_id \<and> \<not> listed ''firewall/group_list'' (py_str firewall_group_id) tr)
       \<or> (case ssh_key_ids of
             PStr ks \<Rightarrow> list_ex (\<lambda>key. key \<noteq> [] \<and> \<not> listed ''sshkey/list'' key tr) (split_comma ks)
           | PNone \<Rightarrow> False | PBool b \<Rightarrow> False | PInt i \<Rightarrow> False))"

text \<open>
  A required field fails resolution: the request has no such field, or the
  cache has no true ID for it.
\<close>

definition unresolved :: "(string \<times> catalog_index) list \<Rightarrow> entry \<Rightarrow> string \<Rightarrow> string \<Rightarrow> string \<Rightarrow> bool" where
  "unresolved D vm field availkey keyname =
     (case map_of vm field of
        None \<Rightarrow> True
      | Some which_key \<Rightarrow> \<not> truthy (cached_id D availkey (py_str which_key) keyname))"

definition required_unresolved :: "(string \<times> catalog_index) list \<Rightarrow> entry \<Rightarrow> bool" where
  "required_unresolved D vm =
     (unresolved D vm ''image'' ''avail_images'' ''OSID''
      \<or> unresolved D vm ''size'' ''avail_sizes'' ''VPSPLANID''
      \<or> unresolved D vm ''location'' ''avail_locations'' ''DCID'')"

text \<open>A call failed: it raised, or it returned \<^verbatim>\<open>False\<close>.\<close>

fun failure :: "exn + result \<Rightarrow> bool" where
  "failure (Inl e) = True"
| "failure (Inr r) = (r = Val (PBool False))"

text \<open>The listing that fills a category of the cache.\<close>

definition category_path :: "string \<Rightarrow> string" where
  "category_path availkey =
     (if availkey = ''avail_locations'' then ''regions/list''
      else if availkey = ''avail_images'' then ''os/list''
      else ''plans/list'')"

fun name_of :: "item \<Rightarrow> pyval option" where
  "name_of (Obj x) = map_of x ''name''"
| "name_of (Scalar v) = None"

text \<open>
  Environments of the examples: the example provider with one setting, and
  a provider whose first location is named like the ID of its second.
\<close>

definition with_setting :: "string \<Rightarrow> pyval \<Rightarrow> env \<Rightarrow> env" where
  "with_setting name v E = E\<lparr>config_value := (config_value E)(name \<mapsto> v)\<rparr>"

definition colliding_locations :: table where
  "colliding_locations =
     [(''1'', Obj [(''DCID'', PStr ''1''), (''name'', PStr ''7'')]),
      (''7'', Obj [(''DCID'', PStr ''7''), (''name'', PStr ''Amsterdam'')])]"

definition colliding_env :: env where
  "colliding_env =
     fixture_env\<lparr>http_query := (\<lambda>n path method data decode.
        if path = ''regions/list'' then listing colliding_locations
        else fixture_http n path method data decode)\<rparr>"

section \<open>Unfolding the model\<close>

lemmas model_defs =
  create_def returned_def then_do_def step_def getitem_def ensure_driver_def has_key_def
  validate_references_def check_startup_script_def check_isoid_def check_ipxe_chain_url_def
  check_firewall_group_def check_ssh_keys_def check_private_networking_def
  get_cloud_config_value_def fire_event_def emit_def resolve_ids_def resolve_field_def
  lookup_vultrid_def cache_provider_details_def set_category_def fill_category_def
  avail_locations_def avail_images_def avail_sizes_def avail_scripts_def avail_acct_isos_def
  avail_public_isos_def avail_firewall_groups_def avail_keys_def query_def result_table_def
  cached_id_def index_get_def index_set_def build_kwargs_def set_if_def userdata_from_file_def
  userdata_encoded_def submit_def request_failed_def status_of_def int_of_string_def strip_def
  is_space_def digit_of_def poll_readiness_def call_wait_for_fun_def call_bootstrap_def
  show_instance_def list_nodes_full_def node_full_def dict_update_def
  wait_for_hostname_def wait_for_default_password_def wait_for_status_def
  wait_for_server_state_def destroy_def str_get_def startswith0_def

lemmas fixture_defs =
  fixture_env_def fixture_http_def listing_def fixture_locations_def fixture_sizes_def
  fixture_images_def fixture_scripts_def fixture_firewall_groups_def fixture_nodes_def
  fixture_vm_def fresh_def fixture_waits_def with_setting_def colliding_env_def
  colliding_locations_def

lemmas trace_defs =
  new_effects_def is_submission_def submissions_def List.map_filter_def is_validation_query_def
  is_catalog_query_def wait_calls_def specified_order_def listed_def

section \<open>Stringified lookup keys\<close>

lemma lookup_vultrid_same_str:
  "py_str k = py_str k' \<Longrightarrow> lookup_vultrid E k a n s = lookup_vultrid E k' a n s"
  unfolding lookup_vultrid_def by (simp cong: prod.case_cong sum.case_cong)

text \<open>
  C10. \<^verbatim>\<open>_lookup_vultrid\<close> applies \<^verbatim>\<open>str\<close> to its key before it indexes the cache:
  for every category, field and state, a key and its string form give the same
  result and the same state; the integer 7 resolves as the string \<^verbatim>\<open>"7"\<close> does.
\<close>

theorem lookup_vultrid_stringifies_key:
  "lookup_vultrid E which_key availkey keyname s
     = lookup_vultrid E (PStr (py_str which_key)) availkey keyname s
   \<and> lookup_vultrid E (PInt 7) availkey keyname s
     = lookup_vultrid E (PStr ''7'') availkey keyname s"
proof -
  have "py_str (PInt 7) = py_str (PStr ''7'')"
    by code_simp
  then show ?thesis
    using lookup_vultrid_same_str [of which_key "PStr (py_str which_key)"]
      lookup_vultrid_same_str [of "PInt 7" "PStr ''7''"]
    by simp
qed

section \<open>What the probes return\<close>

text \<open>
  C5. The node of the example provider has status \<^verbatim>\<open>"active"\<close> and server state
  \<^verbatim>\<open>"ok"\<close>. \<^verbatim>\<open>wait_for_status\<close> and \<^verbatim>\<open>wait_for_server_state\<close> then return the
  node's \<^verbatim>\<open>default_password\<close>, not the status and not the server state: both
  end in \<^verbatim>\<open>return data["default_password"]\<close>, where \<^verbatim>\<open>wait_for_hostname\<close> and
  \<^verbatim>\<open>wait_for_default_password\<close> return the field they poll.
\<close>

theorem wait_for_status_returns_default_password:
  "map_of fixture_nodes ''42164666'' =
     Some (Obj [(''SUBID'', PStr ''42164666''), (''os'', PStr ''CentOS 8 x64''),
                (''main_ip'', PStr ''192.0.2.143''), (''default_password'', PStr ''c0Jkwj(p;&?4sY5Y''),
                (''status'', PStr ''active''), (''server_state'', PStr ''ok''),
                (''VPSPLANID'', PStr ''201''), (''label'', PStr ''host1''), (''internal_ip'', PStr [])])
   \<and> fst (wait_for_status fixture_env fixture_vm fresh) = Inr (Val (PStr ''c0Jkwj(p;&?4sY5Y''))
   \<and> fst (wait_for_server_state fixture_env fixture_vm fresh) = Inr (Val (PStr ''c0Jkwj(p;&?4sY5Y''))
   \<and> fst (wait_for_hostname fixture_env fixture_vm fresh) = Inr (Val (PStr ''192.0.2.143''))"
  by (simp add: model_defs fixture_defs)

section \<open>The userdata of the submission\<close>

text \<open>
  C3. With \<^verbatim>\<open>userdata\<close> set to the path of an existing file whose text is
  \<^verbatim>\<open>#cloud-config\<close>, the payload that \<^verbatim>\<open>create\<close> submits carries the Base64 form
  of the path, not of the text of the file: the second \<^verbatim>\<open>userdata\<close> block
  overwrites what the first one stored.
\<close>

theorem userdata_file_sends_encoded_path:
  "map (\<lambda>kwargs. map_of kwargs ''userdata'')
       (submissions (new_effects fresh
          (snd (create (with_setting ''userdata'' (PStr ''/srv/scripts/userdata.tmpl'') fixture_env)
                  fixture_vm fresh))))
     = [Some (PStr ''L3Nydi9zY3JpcHRzL3VzZXJkYXRhLnRtcGw='')]
   \<and> base64 ''/srv/scripts/userdata.tmpl'' = ''L3Nydi9zY3JpcHRzL3VzZXJkYXRhLnRtcGw=''
   \<and> isfile fixture_env (PStr ''/srv/scripts/userdata.tmpl'')
   \<and> read_file fixture_env (PStr ''/srv/scripts/userdata.tmpl'') = Some ''#cloud-config''
   \<and> base64 ''#cloud-config'' = ''I2Nsb3VkLWNvbmZpZw==''"
  by (simp add: model_defs fixture_defs trace_defs b64_char_def)

end
